theory Spec2Isabelle
  imports Complex_Main "HOL-Library.Log_Nat"
begin

section \<open>LeadFlow24 backend (server.js): a shallow embedding\<close>

text \<open>
  The server is an Express application over a SQLite database (better-sqlite3) and an
  SMTP transport (nodemailer). Each HTTP handler becomes a function from the request and
  the current store to a response and the new store. What the handlers take from outside
  is made a parameter: the identifiers returned by \<^verbatim>\<open>uuidv4()\<close>, the clock,
  the environment variables, the outcome of every SMTP delivery, and the tables of the
  JavaScript engine and of SQLite (case mapping, white space, number formats).
\<close>

subsection \<open>JavaScript values of a request\<close>

text \<open>
  A member of a body parsed by \<^verbatim>\<open>express.json()\<close> or
  \<^verbatim>\<open>express.urlencoded()\<close> is absent (\<^verbatim>\<open>undefined\<close>), \<^verbatim>\<open>null\<close>, a boolean,
  a number, a string, an array or a plain object. Numbers are exact rationals. Of an
  object only its being one matters to the handlers modelled here.
\<close>

datatype jsval =
  JUndefined | JNull | JBool bool | JNum rat | JStr string | JArr "jsval list" | JObj

fun truthy :: "jsval \<Rightarrow> bool" where
  "truthy JUndefined = False"
| "truthy JNull = False"
| "truthy (JBool b) = b"
| "truthy (JNum n) = (n \<noteq> 0)"
| "truthy (JStr s) = (s \<noteq> [])"
| "truthy (JArr vs) = True"
| "truthy JObj = True"

text \<open>\<^verbatim>\<open>a || b\<close>\<close>

definition js_or :: "jsval \<Rightarrow> jsval \<Rightarrow> jsval" where
  "js_or a b = (if truthy a then a else b)"

subsection \<open>The environment\<close>

text \<open>
  \<open>uuid_gen n\<close> is what the n-th call of \<^verbatim>\<open>uuidv4()\<close> returns. The engine gives
  \<open>number_string\<close> (a number in a template literal), \<open>toLowerCase\<close> and \<open>trim\<close> (the
  methods of String.prototype, with their Unicode tables) and \<open>new_Date\<close> (the instant
  \<^verbatim>\<open>new Date(text)\<close> denotes for the stored text of a UTC instant: the engine reads
  it as local time). SQLite gives \<open>real_text\<close> (the text of a REAL value) and
  \<open>text_number\<close> (the number a text is, when it looks like one). \<open>foreign_keys\<close> says
  whether the driver enforces REFERENCES clauses. The others are the variables of
  \<^verbatim>\<open>process.env\<close> the modelled handlers read.
\<close>

record env =
  uuid_gen :: "nat \<Rightarrow> string"
  number_string :: "rat \<Rightarrow> string"
  toLowerCase :: "string \<Rightarrow> string"
  trim :: "string \<Rightarrow> string"
  new_Date :: "int \<Rightarrow> int"
  real_text :: "rat \<Rightarrow> string"
  text_number :: "string \<Rightarrow> rat option"
  foreign_keys :: bool
  NOTIFICATION_EMAIL :: "string option"
  WHOP_WEBHOOK_SECRET :: "string option"
  WEBHOOK_SECRET :: "string option"

text \<open>\<^verbatim>\<open>process.env.NOTIFICATION_EMAIL || 'luke@leadflow24.com'\<close>\<close>

definition notification_email :: "env \<Rightarrow> string" where
  "notification_email E =
     (case NOTIFICATION_EMAIL E of
        None \<Rightarrow> ''luke@leadflow24.com''
      | Some s \<Rightarrow> if s = [] then ''luke@leadflow24.com'' else s)"

subsection \<open>Stored values, exceptions and the binding of parameters\<close>

text \<open>
  A column holds NULL, a number (INTEGER or REAL) or a text. What a handler can catch is a
  JavaScript TypeError or RangeError, or a constraint failure of the store. The
  trial-signup handler tests \<^verbatim>\<open>err.message.includes('UNIQUE')\<close>; of these
  messages only SQLite's "UNIQUE constraint failed: ..." contains that word.
\<close>

datatype sqlval = SNull | SNum rat | SText string

datatype error = TypeError | RangeError | SqliteUnique | SqliteNotNull | SqliteForeignKey

fun message_includes_UNIQUE :: "error \<Rightarrow> bool" where
  "message_includes_UNIQUE SqliteUnique = True"
| "message_includes_UNIQUE _ = False"

text \<open>
  The driver binds \<^verbatim>\<open>undefined\<close> and \<^verbatim>\<open>null\<close> as NULL, a number as a REAL
  and a string as a text; it refuses every other value with a TypeError ("SQLite3 can only
  bind numbers, strings, bigints, buffers, and null"). \<open>bound v\<close> is what is bound for a
  value that is \<open>bindable\<close>; for the others nothing is bound.
\<close>

fun bindable :: "jsval \<Rightarrow> bool" where
  "bindable JUndefined = True"
| "bindable JNull = True"
| "bindable (JNum n) = True"
| "bindable (JStr s) = True"
| "bindable _ = False"

fun bound :: "jsval \<Rightarrow> sqlval" where
  "bound (JNum n) = SNum n"
| "bound (JStr s) = SText s"
| "bound _ = SNull"

text \<open>
  One value for the next parameter of a statement that has \<open>k\<close> parameters left: the type
  is checked first, then whether a parameter is left ("Too many parameter values were
  provided").
\<close>

definition bind_value :: "nat \<Rightarrow> jsval \<Rightarrow> error + sqlval" where
  "bind_value k v =
     (if \<not> bindable v then Inl TypeError else if k = 0 then Inl RangeError else Inr (bound v))"

text \<open>
  The arguments of \<^verbatim>\<open>stmt.run(...)\<close>, \<^verbatim>\<open>.get(...)\<close> and \<^verbatim>\<open>.all(...)\<close>, for a
  statement whose parameters are all anonymous: an array argument gives its elements as
  the next parameters, a plain object gives the named parameters, of which there are none,
  and a second plain object is refused; any other argument is one parameter. At the end
  every parameter must have a value ("Too few parameter values were provided"). Every one
  of these exceptions is caught by the handlers in the same way.
\<close>

fun bind_array :: "nat \<Rightarrow> jsval list \<Rightarrow> error + sqlval list" where
  "bind_array k [] = Inr []"
| "bind_array k (v # vs) =
     (case bind_value k v of
        Inl e \<Rightarrow> Inl e
      | Inr x \<Rightarrow> (case bind_array (k - 1) vs of Inl e \<Rightarrow> Inl e | Inr xs \<Rightarrow> Inr (x # xs)))"

fun bind_args :: "nat \<Rightarrow> bool \<Rightarrow> jsval list \<Rightarrow> error + sqlval list" where
  "bind_args k named [] = (if k = 0 then Inr [] else Inl RangeError)"
| "bind_args k named (JArr vs # args) =
     (case bind_array k vs of
        Inl e \<Rightarrow> Inl e
      | Inr xs \<Rightarrow>
          (case bind_args (k - length vs) named args of
             Inl e \<Rightarrow> Inl e
           | Inr ys \<Rightarrow> Inr (xs @ ys)))"
| "bind_args k named (JObj # args) =
     (if named then Inl TypeError else bind_args k True args)"
| "bind_args k named (v # args) =
     (case bind_value k v of
        Inl e \<Rightarrow> Inl e
      | Inr x \<Rightarrow> (case bind_args (k - 1) named args of Inl e \<Rightarrow> Inl e | Inr ys \<Rightarrow> Inr (x # ys)))"

text \<open>The values bound to the \<open>m\<close> parameters of a statement: \<open>vs ! k\<close> is the k-th.\<close>

definition bind_parameters :: "nat \<Rightarrow> jsval list \<Rightarrow> error + sqlval list" where
  "bind_parameters m args = bind_args m False args"

text \<open>
  Column affinity. A number stored into a TEXT column, or compared with one, becomes its
  text; a text that looks like a number becomes that number in a REAL or NUMERIC
  (DATETIME) column.
\<close>

fun text_affinity :: "env \<Rightarrow> sqlval \<Rightarrow> sqlval" where
  "text_affinity E (SNum n) = SText (real_text E n)"
| "text_affinity E v = v"




subsection \<open>The tables (CREATE TABLE statements of server.js)\<close>

text \<open>
  Timestamps are integers (milliseconds): created_at and updated_at are the UTC instant
  that CURRENT_TIMESTAMP stored. Identifiers are the strings \<^verbatim>\<open>uuidv4()\<close> returned. A
  table is the list of its rows in insertion order.
\<close>

record subscriber =
  s_id :: string
  s_email :: sqlval
  s_source :: sqlval
  s_status :: sqlval
  s_created_at :: int
  s_updated_at :: int

record trial_signup =
  t_id :: string
  t_first_name :: sqlval
  t_last_name :: sqlval
  t_business_name :: sqlval
  t_email :: sqlval
  t_phone :: sqlval
  t_industry :: sqlval
  t_city :: sqlval
  t_source :: sqlval
  t_status :: sqlval
  t_notes :: sqlval
  t_assigned_to :: sqlval
  t_follow_up_date :: sqlval
  t_created_at :: int
  t_updated_at :: int

record client =
  c_id :: string
  c_trial_id :: sqlval
  c_business_name :: sqlval
  c_contact_name :: sqlval
  c_email :: sqlval
  c_phone :: sqlval
  c_industry :: sqlval
  c_city :: sqlval
  c_service_area :: sqlval
  c_services_offered :: sqlval
  c_avg_job_value :: sqlval
  c_plan :: sqlval
  c_plan_price :: sqlval
  c_status :: sqlval
  c_dashboard_token :: sqlval
  c_whop_membership_id :: sqlval
  c_whop_user_id :: sqlval
  c_onboarded_at :: sqlval
  c_created_at :: int
  c_updated_at :: int

record lead =
  l_id :: string
  l_client_id :: sqlval
  l_capture_page :: sqlval
  l_name :: sqlval
  l_email :: sqlval
  l_phone :: sqlval
  l_service_needed :: sqlval
  l_address :: sqlval
  l_city :: sqlval
  l_postal_code :: sqlval
  l_message :: sqlval
  l_source :: sqlval
  l_utm_source :: sqlval
  l_utm_medium :: sqlval
  l_utm_campaign :: sqlval
  l_status :: sqlval
  l_contacted_at :: sqlval
  l_booked_at :: sqlval
  l_job_value :: sqlval
  l_notes :: sqlval
  l_created_at :: int
  l_updated_at :: int

text \<open>
  The details column of lead_activity holds \<^verbatim>\<open>JSON.stringify\<close> of a small object;
  the model keeps the object.
\<close>

datatype details =
  CreatedDetails jsval jsval
| StatusDetails jsval jsval jsval

record lead_activity_row =
  a_id :: string
  a_lead_id :: sqlval
  a_action :: string
  a_details :: details
  a_created_by :: sqlval
  a_created_at :: int

record capture_page =
  p_id :: string
  p_client_id :: sqlval
  p_slug :: sqlval
  p_title :: sqlval
  p_industry :: sqlval
  p_city :: sqlval
  p_status :: sqlval
  p_views :: int
  p_submissions :: int
  p_created_at :: int

record email_log_row =
  e_id :: string
  e_recipient :: string
  e_subject :: string
  e_template :: string
  e_status :: string
  e_created_at :: int

text \<open>The store, and the number of calls of \<^verbatim>\<open>uuidv4()\<close> made so far.\<close>

record world =
  subscribers :: "subscriber list"
  trial_signups :: "trial_signup list"
  clients :: "client list"
  leads :: "lead list"
  lead_activity :: "lead_activity_row list"
  capture_pages :: "capture_page list"
  email_log :: "email_log_row list"
  uuid_calls :: nat


definition uuidv4 :: "env \<Rightarrow> world \<Rightarrow> string \<times> world" where
  "uuidv4 E w = (uuid_gen E (uuid_calls w), w\<lparr>uuid_calls := Suc (uuid_calls w)\<rparr>)"

subsection \<open>Responses\<close>

text \<open>
  Of the dashboard payload the model keeps the four counts, the close rate and the weekly
  histogram; the client projection, totalRevenue, costPerLead and recentLeads are left
  out.
\<close>

record weekly_bucket =
  week :: string
  count :: nat

record dashboard_stats =
  totalLeads :: nat
  newLeads :: nat
  contactedLeads :: nat
  bookedLeads :: nat
  closeRate :: jsval

text \<open>
  \<open>ErrorBody m\<close> is \<^verbatim>\<open>{error: m}\<close>; \<open>SuccessBody id message\<close> is
  \<^verbatim>\<open>{success: true, id, message}\<close> with the members that are given;
  \<open>ReceivedBody\<close> is \<^verbatim>\<open>{received: true}\<close>; \<open>SentBody\<close> is what
  \<^verbatim>\<open>res.send\<close> was given.
\<close>

datatype body =
  ErrorBody string
| SuccessBody "string option" "string option"
| ReceivedBody
| SentBody "string option"
| DashboardBody dashboard_stats "weekly_bucket list"

record response =
  status_code :: nat
  payload :: body

definition json :: "body \<Rightarrow> response" where
  "json b = \<lparr>status_code = 200, payload = b\<rparr>"

definition status_json :: "nat \<Rightarrow> body \<Rightarrow> response" where
  "status_json c b = \<lparr>status_code = c, payload = b\<rparr>"

subsection \<open>sendEmail\<close>

text \<open>
  The SMTP transport either resolves with an info object or rejects. The INSERT into
  email_log fails when the id is already a key of the table.
\<close>

datatype transport = Resolved string | Rejected

definition insert_email_log ::
  "int \<Rightarrow> string \<Rightarrow> string \<Rightarrow> string \<Rightarrow> string \<Rightarrow> world \<Rightarrow> (error + unit) \<times> world" where
  "insert_email_log now i recipient subject st w =
     (if i \<in> set (map e_id (email_log w)) then (Inl SqliteUnique, w)
      else (Inr (),
            w\<lparr>email_log := email_log w @
               [\<lparr>e_id = i, e_recipient = recipient, e_subject = subject,
                 e_template = ''custom'', e_status = st, e_created_at = now\<rparr>]\<rparr>))"

text \<open>The catch block of sendEmail: its own INSERT is not guarded.\<close>

definition sendEmail_catch ::
  "env \<Rightarrow> int \<Rightarrow> string \<Rightarrow> string \<Rightarrow> world \<Rightarrow> (error + string option) \<times> world" where
  "sendEmail_catch E now recipient subject w =
     (let (u, w1) = uuidv4 E w in
      case insert_email_log now u recipient subject ''failed'' w1 of
        (Inl e, w2) \<Rightarrow> (Inl e, w2)
      | (Inr _, w2) \<Rightarrow> (Inr None, w2))"

definition sendEmail ::
  "env \<Rightarrow> int \<Rightarrow> transport \<Rightarrow> string \<Rightarrow> string \<Rightarrow> world \<Rightarrow> (error + string option) \<times> world" where
  "sendEmail E now tr recipient subject w =
     (case tr of
        Rejected \<Rightarrow> sendEmail_catch E now recipient subject w
      | Resolved info \<Rightarrow>
          (let (u, w1) = uuidv4 E w in
           case insert_email_log now u recipient subject ''sent'' w1 of
             (Inl e, w2) \<Rightarrow> sendEmail_catch E now recipient subject w2
           | (Inr _, w2) \<Rightarrow> (Inr (Some info), w2)))"

subsection \<open>GET /api/webhooks/facebook\<close>

text \<open>
  The three query parameters, each absent or a string. \<^verbatim>\<open>res.sendStatus(403)\<close> sends
  the status text as the body.
\<close>

record fb_query =
  hub_mode :: "string option"
  hub_verify_token :: "string option"
  hub_challenge :: "string option"

definition facebook_verify :: "env \<Rightarrow> fb_query \<Rightarrow> response" where
  "facebook_verify E q =
     (if hub_mode q = Some ''subscribe'' \<and> hub_verify_token q = WEBHOOK_SECRET E
      then \<lparr>status_code = 200, payload = SentBody (hub_challenge q)\<rparr>
      else \<lparr>status_code = 403, payload = SentBody (Some ''Forbidden'')\<rparr>)"

subsection \<open>POST /api/capture-pages/:slug/view\<close>

text \<open>\<^verbatim>\<open>UPDATE capture_pages SET views = views + 1 WHERE slug = ?\<close>\<close>

definition bump_views :: "string \<Rightarrow> capture_page \<Rightarrow> capture_page" where
  "bump_views slug p = (if p_slug p = SText slug then p\<lparr>p_views := p_views p + 1\<rparr> else p)"

definition capture_page_view :: "string \<Rightarrow> world \<Rightarrow> response \<times> world" where
  "capture_page_view slug w =
     (json (SuccessBody None None),
      w\<lparr>capture_pages := map (bump_views slug) (capture_pages w)\<rparr>)"

subsection \<open>Strings\<close>

text \<open>
  Strings are byte lists (UTF-8). The engine's \<^verbatim>\<open>toLowerCase\<close> and \<^verbatim>\<open>trim\<close> are
  members of the environment. Their restrictions to ASCII are defined here for the
  example environment: the letters A to Z, and the white space characters tab, line
  feed, vertical tab, form feed, carriage return and space.
\<close>

definition lower_char :: "char \<Rightarrow> char" where
  "lower_char c =
     (if (65::nat) \<le> of_char c \<and> of_char c \<le> (90::nat)
      then char_of (of_char c + (32::nat)) else c)"

definition ascii_toLowerCase :: "string \<Rightarrow> string" where
  "ascii_toLowerCase s = map lower_char s"

definition is_space :: "char \<Rightarrow> bool" where
  "is_space c = (of_char c \<in> {9::nat, 10, 11, 12, 13, 32})"

definition ascii_trim :: "string \<Rightarrow> string" where
  "ascii_trim s = rev (dropWhile is_space (rev (dropWhile is_space s)))"

text \<open>
  \<^verbatim>\<open>email.toLowerCase().trim()\<close>: a call of a method that only strings have
  ("email.toLowerCase is not a function" for every other truthy value).
\<close>

fun lower_trim :: "env \<Rightarrow> jsval \<Rightarrow> error + string" where
  "lower_trim E (JStr s) = Inr (trim E (toLowerCase E s))"
| "lower_trim E _ = Inl TypeError"

text \<open>
  A value inside a template literal. An array is its elements joined by commas, with
  nothing for a null element.
\<close>

fun join_comma :: "string list \<Rightarrow> string" where
  "join_comma [] = []"
| "join_comma [s] = s"
| "join_comma (s # t # ss) = s @ '','' @ join_comma (t # ss)"

fun js_string :: "env \<Rightarrow> jsval \<Rightarrow> string" where
  "js_string E JUndefined = ''undefined''"
| "js_string E JNull = ''null''"
| "js_string E (JBool b) = (if b then ''true'' else ''false'')"
| "js_string E (JNum n) = number_string E n"
| "js_string E (JStr s) = s"
| "js_string E (JArr vs) =
     join_comma (map (\<lambda>v. if v = JNull \<or> v = JUndefined then [] else js_string E v) vs)"
| "js_string E JObj = ''[object Object]''"

text \<open>Decimal digits of a natural number (the loop counter in a template literal).\<close>

fun digits :: "nat \<Rightarrow> string" where
  "digits n = (if n < 10 then [char_of (48 + n)] else digits (n div 10) @ [char_of (48 + n mod 10)])"

declare digits.simps [simp del]

text \<open>The glyphs of the subject lines, as their UTF-8 bytes.\<close>

definition em_dash :: string where
  "em_dash = [CHR 0xE2, CHR 0x80, CHR 0x94]"

definition glyph_bell :: string where
  "glyph_bell = [CHR 0xF0, CHR 0x9F, CHR 0x94, CHR 0x94]"

definition glyph_chart :: string where
  "glyph_chart = [CHR 0xF0, CHR 0x9F, CHR 0x93, CHR 0x8A]"

definition glyph_rocket :: string where
  "glyph_rocket = [CHR 0xF0, CHR 0x9F, CHR 0x9A, CHR 0x80]"





subsection \<open>getEmailTemplate\<close>

text \<open>
  The function builds the object of all four templates on every call and then selects
  one, so every template literal is evaluated whatever the requested type is. The html of
  internal_notification calls \<^verbatim>\<open>data.type.toUpperCase()\<close>, which throws a TypeError
  unless \<^verbatim>\<open>data.type\<close> is a string. No other interpolation can throw. Only the
  subject of a template is modelled: the html goes to the transport and nowhere else.
\<close>

record template_data =
  d_firstName :: jsval
  d_leadName :: jsval
  d_serviceNeeded :: jsval
  d_type :: jsval
  d_summary :: jsval
  d_businessName :: jsval

definition no_data :: template_data where
  "no_data = \<lparr>d_firstName = JUndefined, d_leadName = JUndefined, d_serviceNeeded = JUndefined,
              d_type = JUndefined, d_summary = JUndefined, d_businessName = JUndefined\<rparr>"

fun has_toUpperCase :: "jsval \<Rightarrow> bool" where
  "has_toUpperCase (JStr s) = True"
| "has_toUpperCase _ = False"

definition templates :: "env \<Rightarrow> template_data \<Rightarrow> (string \<times> string) list" where
  "templates E d =
     [(''trial_welcome'',
         ''Welcome to LeadFlow24, '' @ js_string E (d_firstName d) @ ''! Your trial starts now.''),
      (''new_lead_notification'',
         glyph_bell @ '' New Lead: '' @ js_string E (d_leadName d) @ '' needs '' @
         js_string E (d_serviceNeeded d)),
      (''internal_notification'',
         ''[LeadFlow24] '' @ js_string E (d_type d) @ '': '' @ js_string E (d_summary d)),
      (''weekly_report'',
         glyph_chart @ '' Your Weekly Lead Report '' @ em_dash @ '' '' @
         js_string E (d_businessName d))]"

definition getEmailTemplate :: "env \<Rightarrow> string \<Rightarrow> template_data \<Rightarrow> error + string option" where
  "getEmailTemplate E ty d =
     (if has_toUpperCase (d_type d) then Inr (map_of (templates E d) ty) else Inl TypeError)"

text \<open>\<^verbatim>\<open>getEmailTemplate(...).html\<close>: reading a member of null throws.\<close>

definition template_html :: "env \<Rightarrow> string \<Rightarrow> template_data \<Rightarrow> error + unit" where
  "template_html E ty d =
     (case getEmailTemplate E ty d of
        Inl e \<Rightarrow> Inl e
      | Inr None \<Rightarrow> Inl TypeError
      | Inr (Some t) \<Rightarrow> Inr ())"

subsection \<open>POST /api/subscribe\<close>


text \<open>
  \<^verbatim>\<open>INSERT OR IGNORE INTO subscribers (id, email, source) VALUES (?, ?, ?)\<close>, run
  with the id and two more arguments: a row that would break NOT NULL, the primary key or
  UNIQUE(email) is skipped without an error. The id is a string, so it is the first
  parameter.
\<close>

definition insert_or_ignore_subscriber ::
  "env \<Rightarrow> int \<Rightarrow> string \<Rightarrow> jsval list \<Rightarrow> world \<Rightarrow> (error + unit) \<times> world" where
  "insert_or_ignore_subscriber E now i args w =
     (case bind_parameters 3 (JStr i # args) of
        Inl e \<Rightarrow> (Inl e, w)
      | Inr vs \<Rightarrow>
          (let email = text_affinity E (vs ! 1); source = text_affinity E (vs ! 2)
           in (Inr (),
               if email = SNull \<or> i \<in> set (map s_id (subscribers w)) \<or>
                  email \<in> set (map s_email (subscribers w))
               then w
               else w\<lparr>subscribers := subscribers w @
                      [\<lparr>s_id = i, s_email = email, s_source = source,
                        s_status = SText ''active'', s_created_at = now,
                        s_updated_at = now\<rparr>]\<rparr>)))"



subsection \<open>POST /api/trial-signup\<close>

record trial_req =
  tr_firstName :: jsval
  tr_lastName :: jsval
  tr_businessName :: jsval
  tr_email :: jsval
  tr_phone :: jsval
  tr_industry :: jsval
  tr_city :: jsval
  tr_source :: jsval

text \<open>
  The arguments of the INSERT after the id:
  \<^verbatim>\<open>firstName, lastName, businessName, email.toLowerCase().trim(), phone, industry,
  city, source || 'free_trial_page'\<close>.
\<close>

definition trial_args :: "string \<Rightarrow> trial_req \<Rightarrow> jsval list" where
  "trial_args em req =
     [tr_firstName req, tr_lastName req, tr_businessName req, JStr em, tr_phone req,
      tr_industry req, tr_city req, js_or (tr_source req) (JStr ''free_trial_page'')]"

text \<open>The row of the nine bound values; every column written is a TEXT column.\<close>

definition trial_of_values :: "env \<Rightarrow> int \<Rightarrow> string \<Rightarrow> sqlval list \<Rightarrow> trial_signup" where
  "trial_of_values E now i vs =
     \<lparr>t_id = i, t_first_name = text_affinity E (vs ! 1), t_last_name = text_affinity E (vs ! 2),
      t_business_name = text_affinity E (vs ! 3), t_email = text_affinity E (vs ! 4),
      t_phone = text_affinity E (vs ! 5), t_industry = text_affinity E (vs ! 6),
      t_city = text_affinity E (vs ! 7), t_source = text_affinity E (vs ! 8),
      t_status = SText ''new'', t_notes = SNull, t_assigned_to = SNull,
      t_follow_up_date = SNull, t_created_at = now, t_updated_at = now\<rparr>"

text \<open>
  The plain INSERT into trial_signups: seven columns are NOT NULL, and the id and the
  email are unique. SQLite tests NOT NULL before uniqueness.
\<close>

definition insert_trial_signup ::
  "env \<Rightarrow> int \<Rightarrow> string \<Rightarrow> jsval list \<Rightarrow> world \<Rightarrow> (error + unit) \<times> world" where
  "insert_trial_signup E now i args w =
     (case bind_parameters 9 (JStr i # args) of
        Inl e \<Rightarrow> (Inl e, w)
      | Inr vs \<Rightarrow>
          (let row = trial_of_values E now i vs
           in if SNull \<in> {t_first_name row, t_last_name row, t_business_name row, t_email row,
                           t_phone row, t_industry row, t_city row}
              then (Inl SqliteNotNull, w)
              else if t_id row \<in> set (map t_id (trial_signups w)) \<or>
                      t_email row \<in> set (map t_email (trial_signups w))
              then (Inl SqliteUnique, w)
              else (Inr (), w\<lparr>trial_signups := trial_signups w @ [row]\<rparr>)))"

definition trial_subject :: "env \<Rightarrow> trial_req \<Rightarrow> string" where
  "trial_subject E req =
     glyph_rocket @ '' NEW TRIAL SIGNUP: '' @ js_string E (tr_businessName req) @ '' ('' @
     js_string E (tr_industry req) @ '') '' @ em_dash @ '' '' @ js_string E (tr_city req)"

definition trial_summary :: "env \<Rightarrow> trial_req \<Rightarrow> string" where
  "trial_summary E req =
     js_string E (tr_firstName req) @ '' '' @ js_string E (tr_lastName req) @ '' '' @
     em_dash @ '' '' @ js_string E (tr_businessName req)"

text \<open>The two notifications that follow the inserts: the welcome email, then the operator's.\<close>

definition trial_notify ::
  "env \<Rightarrow> int \<Rightarrow> transport \<Rightarrow> transport \<Rightarrow> string \<Rightarrow> trial_req \<Rightarrow> world \<Rightarrow>
   (error + response) \<times> world" where
  "trial_notify E now tr1 tr2 i req w =
     (case getEmailTemplate E ''trial_welcome'' (no_data\<lparr>d_firstName := tr_firstName req\<rparr>) of
        Inl e \<Rightarrow> (Inl e, w)
      | Inr welcomeEmail \<Rightarrow>
          (case (case welcomeEmail of
                   None \<Rightarrow> (Inr None, w)
                 | Some subject \<Rightarrow> sendEmail E now tr1 (js_string E (tr_email req)) subject w) of
             (Inl e, w1) \<Rightarrow> (Inl e, w1)
           | (Inr _, w1) \<Rightarrow>
               (case template_html E ''internal_notification''
                       (no_data\<lparr>d_type := JStr ''Trial Signup'',
                                d_summary := JStr (trial_summary E req)\<rparr>) of
                  Inl e \<Rightarrow> (Inl e, w1)
                | Inr _ \<Rightarrow>
                    (case sendEmail E now tr2 (notification_email E) (trial_subject E req) w1 of
                       (Inl e, w2) \<Rightarrow> (Inl e, w2)
                     | (Inr _, w2) \<Rightarrow>
                         (Inr (json (SuccessBody (Some i) (Some ''Trial signup successful''))),
                          w2)))))"

definition trial_signup_try ::
  "env \<Rightarrow> int \<Rightarrow> transport \<Rightarrow> transport \<Rightarrow> trial_req \<Rightarrow> world \<Rightarrow> (error + response) \<times> world" where
  "trial_signup_try E now tr1 tr2 req w =
     (if \<not> truthy (tr_firstName req) \<or> \<not> truthy (tr_email req) \<or> \<not> truthy (tr_phone req)
      then (Inr (status_json 400 (ErrorBody ''First name, email, and phone required'')), w)
      else
        let (i, w1) = uuidv4 E w in
        (case lower_trim E (tr_email req) of
           Inl e \<Rightarrow> (Inl e, w1)
         | Inr em \<Rightarrow>
             (case insert_trial_signup E now i (trial_args em req) w1 of
                (Inl e, w2) \<Rightarrow> (Inl e, w2)
              | (Inr _, w2) \<Rightarrow>
                  (let (u, w3) = uuidv4 E w2
                   in (case insert_or_ignore_subscriber E now u
                              [JStr em, JStr ''trial_signup''] w3 of
                         (Inl e, w4) \<Rightarrow> (Inl e, w4)
                       | (Inr _, w4) \<Rightarrow> trial_notify E now tr1 tr2 i req w4)))))"

definition trial_signup ::
  "env \<Rightarrow> int \<Rightarrow> transport \<Rightarrow> transport \<Rightarrow> trial_req \<Rightarrow> world \<Rightarrow> response \<times> world" where
  "trial_signup E now tr1 tr2 req w =
     (case trial_signup_try E now tr1 tr2 req w of
        (Inl e, w') \<Rightarrow>
          (if message_includes_UNIQUE e
           then (status_json 409 (ErrorBody ''Email already registered for a trial''), w')
           else (status_json 500 (ErrorBody ''Signup failed''), w'))
      | (Inr r, w') \<Rightarrow> (r, w'))"

subsection \<open>POST /api/leads\<close>















subsection \<open>PATCH /api/leads/:id\<close>








subsection \<open>JavaScript numbers in the dashboard\<close>

text \<open>
  A JavaScript number is an IEEE 754 binary64 value: the result of a division or a
  multiplication is the exact result rounded to 53 significant bits, to nearest, ties to
  even. The values rounded here lie between 1/2^32 and 100, far from overflow and from
  the subnormal range, so the exponent range is not modelled.
\<close>

definition round_ties_even :: "rat \<Rightarrow> int" where
  "round_ties_even x =
     (let f = \<lfloor>x\<rfloor>; r = x - of_int f
      in if r < 1/2 then f else if 1/2 < r then f + 1 else if even f then f else f + 1)"

text \<open>The binary exponent of a positive number: \<open>2 powi e \<le> x < 2 powi (e + 1)\<close>.\<close>

definition exponent :: "rat \<Rightarrow> int" where
  "exponent x =
     (let (p, q) = quotient_of x; e = bitlen p - bitlen q
      in if 2 powi e \<le> x then e else e - 1)"

definition binary64 :: "rat \<Rightarrow> rat" where
  "binary64 x =
     (if x = 0 then 0
      else let u = 2 powi (exponent \<bar>x\<bar> - 52) in of_int (round_ties_even (x / u)) * u)"

text \<open>
  \<^verbatim>\<open>x.toFixed(1)\<close>: the integer n for which n / 10 - x is as close to zero as
  possible, the larger one if there are two, printed with one digit after the point.
\<close>

definition toFixed1 :: "rat \<Rightarrow> string" where
  "toFixed1 x =
     (let n = nat \<lfloor>\<bar>x\<bar> * 10 + 1/2\<rfloor>
      in (if x < 0 then ''-'' else []) @ digits (n div 10) @ ''.'' @ digits (n mod 10))"

text \<open>
  \<^verbatim>\<open>totalLeads > 0 ? ((bookedLeads / totalLeads) * 100).toFixed(1) : 0\<close>
\<close>

definition close_rate :: "nat \<Rightarrow> nat \<Rightarrow> jsval" where
  "close_rate nbooked ntotal =
     (if ntotal > 0
      then JStr (toFixed1 (binary64 (binary64 (of_nat nbooked / of_nat ntotal) * 100)))
      else JNum 0)"

subsection \<open>GET /api/dashboard/:token\<close>

text \<open>
  \<^verbatim>\<open>SELECT * FROM leads WHERE client_id = ? ORDER BY created_at DESC\<close>. SQLite leaves
  the order of rows with equal created_at open; the model puts the later insertion first.
\<close>

definition leads_of_client :: "string \<Rightarrow> world \<Rightarrow> lead list" where
  "leads_of_client cid w =
     rev (sort_key l_created_at (filter (\<lambda>l. l_client_id l = SText cid) (leads w)))"

text \<open>
  The weekly loop. \<^verbatim>\<open>setDate(getDate() - i * 7)\<close> moves a Date by whole calendar
  days; the model takes a day as 86400000 ms (a server clock without daylight saving
  changes). \<^verbatim>\<open>new Date(l.created_at)\<close> is the environment's reading of the stored
  instant.
\<close>

definition day_ms :: int where
  "day_ms = 86400000"

definition week_bucket :: "env \<Rightarrow> int \<Rightarrow> lead list \<Rightarrow> nat \<Rightarrow> weekly_bucket" where
  "week_bucket E now ls i =
     (let weekStart = now - int (i * 7) * day_ms;
          weekEnd = weekStart + 7 * day_ms
      in \<lparr>week = ''W'' @ digits (4 - i),
          count = length (filter (\<lambda>l. weekStart \<le> new_Date E (l_created_at l) \<and>
                                       new_Date E (l_created_at l) < weekEnd) ls)\<rparr>)"

text \<open>
  \<^verbatim>\<open>for (let i = 3; i >= 0; i--)\<close>: \<open>weekly_loop E now ls (Suc i)\<close> runs the body for
  i, then for the smaller values.
\<close>

fun weekly_loop :: "env \<Rightarrow> int \<Rightarrow> lead list \<Rightarrow> nat \<Rightarrow> weekly_bucket list" where
  "weekly_loop E now ls 0 = []"
| "weekly_loop E now ls (Suc i) = week_bucket E now ls i # weekly_loop E now ls i"

definition weeklyLeads :: "env \<Rightarrow> int \<Rightarrow> lead list \<Rightarrow> weekly_bucket list" where
  "weeklyLeads E now ls = weekly_loop E now ls 4"

definition count_status :: "string \<Rightarrow> lead list \<Rightarrow> nat" where
  "count_status st ls = length (filter (\<lambda>l. l_status l = SText st) ls)"

definition dashboard :: "env \<Rightarrow> int \<Rightarrow> string \<Rightarrow> world \<Rightarrow> response" where
  "dashboard E now token w =
     (case find (\<lambda>c. c_dashboard_token c = SText token) (clients w) of
        None \<Rightarrow> status_json 404 (ErrorBody ''Dashboard not found'')
      | Some client \<Rightarrow>
          (let ls = leads_of_client (c_id client) w
           in json (DashboardBody
                \<lparr>totalLeads = length ls,
                 newLeads = count_status ''new'' ls,
                 contactedLeads = count_status ''contacted'' ls,
                 bookedLeads = count_status ''booked'' ls,
                 closeRate = close_rate (count_status ''booked'' ls) (length ls)\<rparr>
                (weeklyLeads E now ls))))"

subsection \<open>POST /api/webhooks/whop\<close>


record whop_plan =
  wp_id :: jsval
  wp_initial_price :: jsval
  wp_renewal_price :: jsval
  wp_plan_type :: jsval















subsection \<open>Example data\<close>

text \<open>
  An environment, stores and requests on which the theorems below are instantiated. The
  environment is an ASCII engine on a server whose local time is UTC; its \<open>real_text\<close> is
  right for the whole numbers from 0 on, and its \<open>text_number\<close> for the texts that are
  no numerals, which is all that the examples store. The store \<open>seed_store\<close> is in the style of seed.js: the demo client (here still on trial),
  its capture page and two leads, created on day 3 and on day 27.
\<close>

definition example_env :: env where
  "example_env =
     \<lparr>uuid_gen = (\<lambda>n. ''uuid-'' @ replicate n CHR ''x''),
      number_string = (\<lambda>r. digits (nat \<lfloor>r\<rfloor>)),
      toLowerCase = ascii_toLowerCase, trim = ascii_trim, new_Date = (\<lambda>t. t),
      real_text = (\<lambda>r. digits (nat \<lfloor>r\<rfloor>) @ ''.0''), text_number = (\<lambda>s. None),
      foreign_keys = True, NOTIFICATION_EMAIL = None,
      WHOP_WEBHOOK_SECRET = Some ''whop-secret'', WEBHOOK_SECRET = Some ''fb-secret''\<rparr>"

definition empty_store :: world where
  "empty_store =
     \<lparr>subscribers = [], trial_signups = [], clients = [], leads = [], lead_activity = [],
      capture_pages = [], email_log = [], uuid_calls = 0\<rparr>"

definition demo_client :: client where
  "demo_client =
     \<lparr>c_id = ''client-1'', c_trial_id = SNull, c_business_name = SText ''Edmonton Pro HVAC'',
      c_contact_name = SText ''Mike Johnson'', c_email = SText ''mike@edmontonprohvac.ca'',
      c_phone = SText ''(780) 555-0123'', c_industry = SText ''hvac'',
      c_city = SText ''Edmonton'', c_service_area = SNull, c_services_offered = SNull,
      c_avg_job_value = SNum 3200, c_plan = SText ''growth'', c_plan_price = SNum 597,
      c_status = SText ''trial'', c_dashboard_token = SText ''demo_token'',
      c_whop_membership_id = SNull, c_whop_user_id = SNull, c_onboarded_at = SNull,
      c_created_at = 0, c_updated_at = 0\<rparr>"

definition demo_page :: capture_page where
  "demo_page =
     \<lparr>p_id = ''page-1'', p_client_id = SText ''client-1'',
      p_slug = SText ''hvac-edmonton-demo'', p_title = SText ''Edmonton HVAC Services'',
      p_industry = SText ''hvac'', p_city = SText ''Edmonton'', p_status = SText ''active'',
      p_views = 847, p_submissions = 23, p_created_at = 0\<rparr>"

definition demo_lead :: "string \<Rightarrow> string \<Rightarrow> string \<Rightarrow> int \<Rightarrow> lead" where
  "demo_lead i name st created =
     \<lparr>l_id = i, l_client_id = SText ''client-1'', l_capture_page = SText ''hvac-edmonton-demo'',
      l_name = SText name, l_email = SNull, l_phone = SText ''(780) 555-0201'',
      l_service_needed = SText ''Furnace install'', l_address = SNull,
      l_city = SText ''Windermere'', l_postal_code = SNull, l_message = SNull,
      l_source = SText ''facebook'', l_utm_source = SNull, l_utm_medium = SNull,
      l_utm_campaign = SNull, l_status = SText st, l_contacted_at = SNull,
      l_booked_at = SText ''2026-01-05'', l_job_value = SNum 4200, l_notes = SNull,
      l_created_at = created, l_updated_at = created\<rparr>"

definition seed_store :: world where
  "seed_store =
     empty_store\<lparr>clients := [demo_client], capture_pages := [demo_page],
       leads := [demo_lead ''lead-1'' ''Sarah Mitchell'' ''booked'' (3 * day_ms),
                 demo_lead ''lead-2'' ''David Chen'' ''contacted'' (27 * day_ms)]\<rparr>"



definition example_trial_req :: trial_req where
  "example_trial_req =
     \<lparr>tr_firstName = JStr ''Pat'', tr_lastName = JStr ''Doe'',
      tr_businessName = JStr ''Pat Plumbing'', tr_email = JStr '' Pat@Example.com '',
      tr_phone = JStr ''403-555-0100'', tr_industry = JStr ''plumbing'',
      tr_city = JStr ''Calgary'', tr_source = JUndefined\<rparr>"

definition trial_store :: world where
  "trial_store =
     empty_store\<lparr>trial_signups :=
       [trial_of_values example_env 50 ''trial-1''
          (map bound (JStr ''trial-1'' # trial_args ''pat@example.com'' example_trial_req))]\<rparr>"




definition ten_leads_store :: world where
  "ten_leads_store =
     seed_store\<lparr>leads :=
       map (\<lambda>k. demo_lead (''lead-'' @ replicate k CHR ''x'') ''Lead''
                  (if k < 3 then ''booked'' else ''new'') (int k * day_ms)) [0..<10]\<rparr>"

section \<open>Properties\<close>

text \<open>
  C7. Lead-Ads verification: when hub.mode is "subscribe" and hub.verify_token equals the
  configured WEBHOOK_SECRET, the response is status 200 with exactly the hub.challenge
  value as its body; in every other case it is status 403 with the fixed status text,
  whatever the challenge was.
\<close>

theorem facebook_verify_challenge:
  "(hub_mode q = Some ''subscribe'' \<and> hub_verify_token q = WEBHOOK_SECRET E \<longrightarrow>
      facebook_verify E q = \<lparr>status_code = 200, payload = SentBody (hub_challenge q)\<rparr>) \<and>
   (\<not> (hub_mode q = Some ''subscribe'' \<and> hub_verify_token q = WEBHOOK_SECRET E) \<longrightarrow>
      facebook_verify E q = \<lparr>status_code = 403, payload = SentBody (Some ''Forbidden'')\<rparr> \<and>
      facebook_verify E (q\<lparr>hub_challenge := c\<rparr>) = facebook_verify E q)"
  by (simp add: facebook_verify_def)

theorem facebook_verify_challenge_witness:
  "facebook_verify example_env
     \<lparr>hub_mode = Some ''subscribe'', hub_verify_token = Some ''fb-secret'',
      hub_challenge = Some ''1158201444''\<rparr> =
     \<lparr>status_code = 200, payload = SentBody (Some ''1158201444'')\<rparr> \<and>
   facebook_verify example_env
     \<lparr>hub_mode = Some ''subscribe'', hub_verify_token = Some ''guess'',
      hub_challenge = Some ''1158201444''\<rparr> =
     \<lparr>status_code = 403, payload = SentBody (Some ''Forbidden'')\<rparr>"
  using
    facebook_verify_challenge
      [of "\<lparr>hub_mode = Some ''subscribe'', hub_verify_token = Some ''fb-secret'',
            hub_challenge = Some ''1158201444''\<rparr>" example_env]
    facebook_verify_challenge
      [of "\<lparr>hub_mode = Some ''subscribe'', hub_verify_token = Some ''guess'',
            hub_challenge = Some ''1158201444''\<rparr>" example_env]
  by (simp add: example_env_def)

text \<open>
  C9. Every call of sendEmail whose fresh identifier is not yet a key of email_log appends
  exactly one row to email_log, with status "sent" when the transport resolved and
  "failed" when it rejected, changes nothing else in the store, and returns normally: the
  transport's info, or null after a rejection.
\<close>

theorem send_email_logs_once:
  assumes "uuid_gen E (uuid_calls w) \<notin> set (map e_id (email_log w))"
  shows "sendEmail E now tr recipient subject w =
           (Inr (case tr of Resolved info \<Rightarrow> Some info | Rejected \<Rightarrow> None),
            w\<lparr>email_log := email_log w @
                 [\<lparr>e_id = uuid_gen E (uuid_calls w), e_recipient = recipient,
                   e_subject = subject, e_template = ''custom'',
                   e_status = (case tr of Resolved info \<Rightarrow> ''sent'' | Rejected \<Rightarrow> ''failed''),
                   e_created_at = now\<rparr>],
               uuid_calls := Suc (uuid_calls w)\<rparr>)"
  using assms
  by (cases tr) (simp_all add: sendEmail_def sendEmail_catch_def uuidv4_def insert_email_log_def)

theorem send_email_logs_once_witness:
  "sendEmail example_env 1000 Rejected ''luke@leadflow24.com'' ''hello'' empty_store =
     (Inr None,
      empty_store\<lparr>email_log :=
          [\<lparr>e_id = ''uuid-'', e_recipient = ''luke@leadflow24.com'', e_subject = ''hello'',
            e_template = ''custom'', e_status = ''failed'', e_created_at = 1000\<rparr>],
        uuid_calls := 1\<rparr>)"
  using send_email_logs_once
          [of example_env empty_store 1000 Rejected "''luke@leadflow24.com''" "''hello''"]
  by (simp add: example_env_def empty_store_def)

text \<open>
  C10. For every slug, POST /api/capture-pages/:slug/view answers \<^verbatim>\<open>{success: true}\<close>
  with status 200. When no capture page has the slug the store is left as it was; in
  general the only change is that the views counter of the pages with that slug grows
  by one.
\<close>

theorem capture_page_view_frame:
  "fst (capture_page_view slug w) = \<lparr>status_code = 200, payload = SuccessBody None None\<rparr> \<and>
   ((\<forall>p \<in> set (capture_pages w). p_slug p \<noteq> SText slug) \<longrightarrow>
      snd (capture_page_view slug w) = w) \<and>
   snd (capture_page_view slug w) =
     w\<lparr>capture_pages :=
         map (\<lambda>p. if p_slug p = SText slug then p\<lparr>p_views := p_views p + 1\<rparr> else p)
           (capture_pages w)\<rparr>"
proof -
  have "map (bump_views slug) (capture_pages w) = capture_pages w"
    if "\<forall>p \<in> set (capture_pages w). p_slug p \<noteq> SText slug"
    using that by (intro map_idI) (simp add: bump_views_def)
  moreover have "bump_views slug =
      (\<lambda>p. if p_slug p = SText slug then p\<lparr>p_views := p_views p + 1\<rparr> else p)"
    by (rule ext) (simp add: bump_views_def)
  ultimately show ?thesis
    by (simp add: capture_page_view_def json_def)
qed

theorem capture_page_view_frame_witness:
  "fst (capture_page_view ''no-such-page'' seed_store) =
     \<lparr>status_code = 200, payload = SuccessBody None None\<rparr> \<and>
   snd (capture_page_view ''no-such-page'' seed_store) = seed_store"
  using capture_page_view_frame [of "''no-such-page''" seed_store]
  by (simp add: seed_store_def empty_store_def demo_page_def)




text \<open>
  The templates requested without a type member, trial_welcome and new_lead_notification
  as the handlers call them, throw; internal_notification with a string type does not.
\<close>

lemma getEmailTemplate_without_type:
  "getEmailTemplate E ty (no_data\<lparr>d_firstName := v\<rparr>) = Inl TypeError"
  "getEmailTemplate E ty (no_data\<lparr>d_leadName := v, d_serviceNeeded := v'\<rparr>) = Inl TypeError"
  by (simp_all add: getEmailTemplate_def no_data_def)



text \<open>
  Arguments that are all absent, null, numbers or strings, one for each placeholder, are
  bound in order: nothing is spread, refused or left over.
\<close>

lemma bind_args_bindable:
  assumes "\<forall>v \<in> set args. bindable v" and "length args = k"
  shows "bind_args k named args = Inr (map bound args)"
  using assms
proof (induction args arbitrary: k)
  case Nil
  then show ?case by simp
next
  case (Cons v args)
  then obtain k' where k: "k = Suc k'" and len: "length args = k'" by (cases k) auto
  from Cons.prems have v: "bindable v" and rest: "\<forall>v \<in> set args. bindable v" by simp_all
  have tail: "bind_args k' named args = Inr (map bound args)"
    using rest len by (rule Cons.IH)
  from v show ?case
    by (cases v) (simp_all add: k bind_value_def tail)
qed


lemma bind_parameters_bindable:
  assumes "\<forall>v \<in> set args. bindable v" and "length args = m"
  shows "bind_parameters m args = Inr (map bound args)"
  unfolding bind_parameters_def using assms by (rule bind_args_bindable)


lemma truthy_bound:
  assumes "truthy v" and "bindable v"
  shows "bound v \<noteq> SNull" and "text_affinity E (bound v) \<noteq> SNull"
  using assms by (cases v; simp)+


lemma text_affinity_null: "text_affinity E v = SNull \<longleftrightarrow> v = SNull"
  by (cases v) simp_all






















lemma trial_notify_throws: "trial_notify E now tr1 tr2 i req w = (Inl TypeError, w)"
  by (simp add: trial_notify_def getEmailTemplate_without_type)


lemma insert_or_ignore_trial_signups:
  assumes "insert_or_ignore_subscriber E now i args w = (r, w')"
  shows "trial_signups w' = trial_signups w"
  using assms by (auto simp: insert_or_ignore_subscriber_def Let_def split: sum.splits if_splits)


lemma insert_trial_signup_frame:
  "trial_signups (snd (insert_trial_signup E now i args w)) = trial_signups w \<or>
   (\<exists>row. trial_signups (snd (insert_trial_signup E now i args w)) = trial_signups w @ [row] \<and>
          t_email row \<notin> set (map t_email (trial_signups w)))"
  by (simp add: insert_trial_signup_def Let_def split: sum.split)


lemma trial_signup_store:
  "snd (trial_signup E now tr1 tr2 req w) = snd (trial_signup_try E now tr1 tr2 req w)"
  by (simp add: trial_signup_def split: prod.split sum.split)


lemma trial_signup_try_frame:
  assumes "tr_email req = JStr e"
  shows "trial_signups (snd (trial_signup_try E now tr1 tr2 req w)) =
         trial_signups
           (snd (insert_trial_signup E now (uuid_gen E (uuid_calls w))
                   (trial_args (trim E (toLowerCase E e)) req)
                   (w\<lparr>uuid_calls := Suc (uuid_calls w)\<rparr>))) \<or>
         trial_signups (snd (trial_signup_try E now tr1 tr2 req w)) = trial_signups w"
  by (auto simp: trial_signup_try_def uuidv4_def assms trial_notify_throws
      split: prod.split sum.split dest: insert_or_ignore_trial_signups)


lemma trial_signup_scalar_duplicate:
  assumes "\<forall>v \<in> set (trial_args em req). bindable v"
    and "SText em \<in> set (map t_email (trial_signups w))"
  shows "insert_trial_signup E now i (trial_args em req) w = (Inl SqliteNotNull, w) \<or>
         insert_trial_signup E now i (trial_args em req) w = (Inl SqliteUnique, w)"
proof -
  have "bind_parameters 9 (JStr i # trial_args em req) = Inr (map bound (JStr i # trial_args em req))"
    using assms(1) by (intro bind_parameters_bindable) (simp_all add: trial_args_def)
  then show ?thesis
    using assms(2)
    by (simp add: insert_trial_signup_def trial_of_values_def trial_args_def Let_def)
qed


lemma example_email_normalised:
  "ascii_trim (ascii_toLowerCase '' Pat@Example.com '') = ''pat@example.com''"
  by code_simp

text \<open>
  C4, as the code has it. For a trial signup whose email is a string with a lower-cased
  and trimmed form that already has a row: the rows with that email are the same
  afterwards, so no second row with it exists; a request that fails the validation
  (first name, email or phone falsy) is answered 400 and changes nothing; when the eight
  values bound to the INSERT are each absent, null, a number or a string, the
  trial_signups table is unchanged; and when, besides, the request passes the validation
  and last name, business name, industry and city are numbers or strings, the answer is
  409 and only the count of identifiers drawn has changed.
\<close>

theorem trial_signup_duplicate_email:
  assumes email: "tr_email req = JStr e"
    and dup: "SText (trim E (toLowerCase E e)) \<in> set (map t_email (trial_signups w))"
  shows "filter (\<lambda>t. t_email t = SText (trim E (toLowerCase E e)))
           (trial_signups (snd (trial_signup E now tr1 tr2 req w))) =
         filter (\<lambda>t. t_email t = SText (trim E (toLowerCase E e))) (trial_signups w) \<and>
         (\<not> truthy (tr_firstName req) \<or> e = [] \<or> \<not> truthy (tr_phone req) \<longrightarrow>
          trial_signup E now tr1 tr2 req w =
            (\<lparr>status_code = 400, payload = ErrorBody ''First name, email, and phone required''\<rparr>,
             w)) \<and>
         ((\<forall>v \<in> set (trial_args (trim E (toLowerCase E e)) req). bindable v) \<longrightarrow>
          trial_signups (snd (trial_signup E now tr1 tr2 req w)) = trial_signups w) \<and>
         (truthy (tr_firstName req) \<and> e \<noteq> [] \<and> truthy (tr_phone req) \<and>
          (\<forall>v \<in> set (trial_args (trim E (toLowerCase E e)) req). bindable v) \<and>
          bound (tr_lastName req) \<noteq> SNull \<and> bound (tr_businessName req) \<noteq> SNull \<and>
          bound (tr_industry req) \<noteq> SNull \<and> bound (tr_city req) \<noteq> SNull \<longrightarrow>
          trial_signup E now tr1 tr2 req w =
            (\<lparr>status_code = 409, payload = ErrorBody ''Email already registered for a trial''\<rparr>,
             w\<lparr>uuid_calls := Suc (uuid_calls w)\<rparr>))"
proof -
  let ?em = "trim E (toLowerCase E e)"
  let ?i = "uuid_gen E (uuid_calls w)"
  let ?w1 = "w\<lparr>uuid_calls := Suc (uuid_calls w)\<rparr>"
  let ?w' = "snd (trial_signup E now tr1 tr2 req w)"
  have same_email: "filter (\<lambda>t. t_email t = SText ?em) (trial_signups ?w') =
                    filter (\<lambda>t. t_email t = SText ?em) (trial_signups w)"
    using trial_signup_try_frame [OF email, of E now tr1 tr2 w]
      insert_trial_signup_frame [of E now ?i "trial_args ?em req" ?w1] dup
    by (auto simp: trial_signup_store)
  have invalid: "trial_signup E now tr1 tr2 req w =
      (\<lparr>status_code = 400, payload = ErrorBody ''First name, email, and phone required''\<rparr>, w)"
    if "\<not> truthy (tr_firstName req) \<or> e = [] \<or> \<not> truthy (tr_phone req)"
    using that by (auto simp: trial_signup_def trial_signup_try_def email status_json_def)
  have rejected: "insert_trial_signup E now ?i (trial_args ?em req) ?w1 = (Inl SqliteNotNull, ?w1) \<or>
                  insert_trial_signup E now ?i (trial_args ?em req) ?w1 = (Inl SqliteUnique, ?w1)"
    if "\<forall>v \<in> set (trial_args ?em req). bindable v"
    using that dup by (intro trial_signup_scalar_duplicate) simp_all
  have frame: "trial_signups ?w' = trial_signups w"
    if "\<forall>v \<in> set (trial_args ?em req). bindable v"
    using rejected [OF that] trial_signup_try_frame [OF email, of E now tr1 tr2 w]
    by (auto simp: trial_signup_store)
  have conflict: "trial_signup E now tr1 tr2 req w =
      (\<lparr>status_code = 409, payload = ErrorBody ''Email already registered for a trial''\<rparr>, ?w1)"
    if valid: "truthy (tr_firstName req)" "e \<noteq> []" "truthy (tr_phone req)"
      and members: "\<forall>v \<in> set (trial_args ?em req). bindable v"
      and given: "bound (tr_lastName req) \<noteq> SNull" "bound (tr_businessName req) \<noteq> SNull"
        "bound (tr_industry req) \<noteq> SNull" "bound (tr_city req) \<noteq> SNull"
  proof -
    have scalar: "bindable (tr_firstName req)" "bindable (tr_phone req)"
      using members by (simp_all add: trial_args_def)
    have "bind_parameters 9 (JStr ?i # trial_args ?em req) =
          Inr (map bound (JStr ?i # trial_args ?em req))"
      using members by (intro bind_parameters_bindable) (simp_all add: trial_args_def)
    then have "insert_trial_signup E now ?i (trial_args ?em req) ?w1 = (Inl SqliteUnique, ?w1)"
      using dup given truthy_bound(1) [OF valid(1) scalar(1)] truthy_bound(1) [OF valid(3) scalar(2)]
      by (simp add: insert_trial_signup_def trial_of_values_def trial_args_def Let_def
          text_affinity_null eq_commute [of SNull])
    then show ?thesis
      using valid
      by (simp add: trial_signup_def trial_signup_try_def uuidv4_def email status_json_def)
  qed
  from same_email invalid frame conflict show ?thesis by blast
qed


theorem trial_signup_duplicate_email_witness:
  "trial_signup example_env 100 Rejected Rejected example_trial_req trial_store =
     (\<lparr>status_code = 409, payload = ErrorBody ''Email already registered for a trial''\<rparr>,
      trial_store\<lparr>uuid_calls := 1\<rparr>) \<and>
   trial_signup example_env 100 Rejected Rejected
     (example_trial_req\<lparr>tr_firstName := JStr []\<rparr>) trial_store =
     (\<lparr>status_code = 400, payload = ErrorBody ''First name, email, and phone required''\<rparr>,
      trial_store)"
  using
    trial_signup_duplicate_email
      [where req = example_trial_req and e = "'' Pat@Example.com ''" and w = trial_store
         and E = example_env and now = 100 and ?tr1.0 = Rejected and ?tr2.0 = Rejected]
    trial_signup_duplicate_email
      [where req = "example_trial_req\<lparr>tr_firstName := JStr []\<rparr>"
         and e = "'' Pat@Example.com ''" and w = trial_store
         and E = example_env and now = 100 and ?tr1.0 = Rejected and ?tr2.0 = Rejected]
  by (simp add: example_env_def example_email_normalised)
     (simp add: example_trial_req_def trial_store_def empty_store_def trial_of_values_def
      trial_args_def js_or_def example_env_def)

text \<open>
  C4 as stated fails. A signup with an email that is already registered and no phone is
  answered 400 by the validation, not 409; one that passes the validation and gives
  \<^verbatim>\<open>"lastName": true\<close> is answered 500, because the driver refuses to bind a
  boolean before SQLite sees the row.
\<close>

theorem trial_signup_missing_phone_counterexample:
  "lower_trim example_env (tr_email example_trial_req) = Inr ''pat@example.com'' \<and>
   map t_email (trial_signups trial_store) = [SText ''pat@example.com''] \<and>
   fst (trial_signup example_env 100 Rejected Rejected
          (example_trial_req\<lparr>tr_phone := JUndefined\<rparr>) trial_store) =
     \<lparr>status_code = 400, payload = ErrorBody ''First name, email, and phone required''\<rparr> \<and>
   fst (trial_signup example_env 100 Rejected Rejected
          (example_trial_req\<lparr>tr_lastName := JBool True\<rparr>) trial_store) =
     \<lparr>status_code = 500, payload = ErrorBody ''Signup failed''\<rparr>"
  by (simp add: example_trial_req_def trial_store_def empty_store_def trial_of_values_def
      trial_args_def js_or_def example_env_def example_email_normalised trial_signup_def
      trial_signup_try_def status_json_def uuidv4_def insert_trial_signup_def
      bind_parameters_def bind_value_def)
























lemma digits_1_to_4: "digits (Suc 0) = ''1''" "digits 2 = ''2''" "digits 3 = ''3''" "digits 4 = ''4''"
  by code_simp+


text \<open>
  The four windows the weekly loop counts: W1 starts 21 days before now, and W4 is the
  seven days that follow now.
\<close>

lemma weeklyLeads_windows:
  "weeklyLeads E now ls =
     [\<lparr>week = ''W1'',
       count = length (filter (\<lambda>l. now - 21 * day_ms \<le> new_Date E (l_created_at l) \<and>
                                    new_Date E (l_created_at l) < now - 14 * day_ms) ls)\<rparr>,
      \<lparr>week = ''W2'',
       count = length (filter (\<lambda>l. now - 14 * day_ms \<le> new_Date E (l_created_at l) \<and>
                                    new_Date E (l_created_at l) < now - 7 * day_ms) ls)\<rparr>,
      \<lparr>week = ''W3'',
       count = length (filter (\<lambda>l. now - 7 * day_ms \<le> new_Date E (l_created_at l) \<and>
                                    new_Date E (l_created_at l) < now) ls)\<rparr>,
      \<lparr>week = ''W4'',
       count = length (filter (\<lambda>l. now \<le> new_Date E (l_created_at l) \<and>
                                    new_Date E (l_created_at l) < now + 7 * day_ms) ls)\<rparr>]"
proof -
  have four: "(4::nat) = Suc (Suc (Suc (Suc 0)))" by simp
  have "weeklyLeads E now ls =
          [week_bucket E now ls 3, week_bucket E now ls 2, week_bucket E now ls 1,
           week_bucket E now ls 0]"
    unfolding weeklyLeads_def four weekly_loop.simps by (simp add: numeral_eq_Suc)
  then show ?thesis
    by (simp add: week_bucket_def digits_1_to_4)
qed

lemma close_rate_half: "close_rate (Suc 0) (Suc (Suc 0)) = JStr ''50.0''"
  by code_simp


text \<open>
  C1 fails on the code. The demo client has two leads, created 25 days and 1 day before
  now, both within the 28 days preceding now. The histogram has the four labels W1 to W4,
  but the lead of 25 days ago is in no bucket and the lead of yesterday is in W3, not W4:
  the counts sum to 1 and totalLeads is 2.
\<close>

theorem weekly_histogram_window_shift:
  "dashboard example_env (28 * day_ms) ''demo_token'' seed_store =
     \<lparr>status_code = 200,
      payload = DashboardBody
        \<lparr>totalLeads = 2, newLeads = 0, contactedLeads = 1, bookedLeads = 1,
         closeRate = JStr ''50.0''\<rparr>
        [\<lparr>week = ''W1'', count = 0\<rparr>, \<lparr>week = ''W2'', count = 0\<rparr>,
         \<lparr>week = ''W3'', count = 1\<rparr>, \<lparr>week = ''W4'', count = 0\<rparr>]\<rparr>"
  by (simp add: dashboard_def seed_store_def empty_store_def demo_client_def demo_lead_def
      leads_of_client_def weeklyLeads_windows count_status_def close_rate_half json_def
      day_ms_def example_env_def)

text \<open>
  The rounding to binary64: the exponent found is the binary exponent of the argument,
  and the rounded value is within half a unit in the last place, a relative error of at
  most 2^-53.
\<close>

lemma round_ties_even_error: "\<bar>of_int (round_ties_even x) - x\<bar> \<le> 1/2"
proof -
  have "of_int \<lfloor>x\<rfloor> \<le> x" "x < of_int \<lfloor>x\<rfloor> + 1" by linarith+
  then show ?thesis
    by (auto simp: round_ties_even_def Let_def)
qed

lemma exponent_le:
  assumes "0 < x"
  shows "2 powi (exponent x) \<le> x"
proof -
  obtain p q where pq: "quotient_of x = (p, q)" by (cases "quotient_of x")
  then have q: "0 < q" and x: "x = of_int p / of_int q"
    by (simp_all add: quotient_of_denom_pos quotient_of_div)
  with assms have p: "0 < p" by (simp add: zero_less_divide_iff)
  let ?e = "bitlen p - bitlen q"
  show ?thesis
  proof (cases "2 powi ?e \<le> x")
    case True
    then show ?thesis by (simp add: exponent_def pq)
  next
    case False
    then have e: "exponent x = ?e - 1" by (simp add: exponent_def pq)
    have bp: "2 ^ nat (bitlen p - 1) \<le> p" and bq: "q < 2 ^ nat (bitlen q)"
      using bitlen_bounds [OF p] bitlen_bounds [OF q] by simp_all
    have pos: "1 \<le> bitlen p" "1 \<le> bitlen q"
      using p q bitlen_eq_zero_iff [of p] bitlen_eq_zero_iff [of q] bitlen_nonneg [of p] bitlen_nonneg [of q]
      by linarith+
    have "?e - 1 = (bitlen p - 1) - bitlen q" by simp
    then have "(2::rat) powi (?e - 1) = 2 powi ((bitlen p - 1) - bitlen q)" by (simp only:)
    also have "\<dots> = 2 powi (bitlen p - 1) / 2 powi (bitlen q)"
      by (rule power_int_diff) simp
    also have "\<dots> = 2 ^ nat (bitlen p - 1) / 2 ^ nat (bitlen q)"
      using pos by (simp add: power_int_def)
    also have "\<dots> \<le> of_int p / 2 ^ nat (bitlen q)"
    proof -
      have "(2::rat) ^ nat (bitlen p - 1) \<le> of_int p"
        using bp by (metis of_int_le_iff of_int_numeral of_int_power)
      then show ?thesis by (simp add: divide_right_mono)
    qed
    also have "\<dots> \<le> of_int p / of_int q"
    proof -
      have "(of_int q :: rat) \<le> 2 ^ nat (bitlen q)"
        using bq by (metis less_imp_le of_int_le_iff of_int_numeral of_int_power)
      then show ?thesis using p q by (simp add: frac_le)
    qed
    finally have "(2::rat) powi (?e - 1) \<le> x" by (simp add: x)
    then show ?thesis by (simp only: e)
  qed
qed

lemma exponent_less:
  assumes "0 < x"
  shows "x < 2 powi (exponent x + 1)"
proof -
  obtain p q where pq: "quotient_of x = (p, q)" by (cases "quotient_of x")
  then have q: "0 < q" and x: "x = of_int p / of_int q"
    by (simp_all add: quotient_of_denom_pos quotient_of_div)
  with assms have p: "0 < p" by (simp add: zero_less_divide_iff)
  let ?e = "bitlen p - bitlen q"
  show ?thesis
  proof (cases "2 powi ?e \<le> x")
    case False
    then show ?thesis by (simp add: exponent_def pq)
  next
    case True
    then have e: "exponent x = ?e" by (simp add: exponent_def pq)
    have bp: "p < 2 ^ nat (bitlen p)" and bq: "2 ^ nat (bitlen q - 1) \<le> q"
      using bitlen_bounds [OF p] bitlen_bounds [OF q] by simp_all
    have pos: "1 \<le> bitlen p" "1 \<le> bitlen q"
      using p q bitlen_eq_zero_iff [of p] bitlen_eq_zero_iff [of q] bitlen_nonneg [of p] bitlen_nonneg [of q]
      by linarith+
    have "of_int p / of_int q < (2::rat) ^ nat (bitlen p) / of_int q"
    proof -
      have "(of_int p :: rat) < 2 ^ nat (bitlen p)"
        using bp by (metis of_int_less_iff of_int_numeral of_int_power)
      then show ?thesis using q by (simp add: divide_strict_right_mono)
    qed
    also have "\<dots> \<le> 2 ^ nat (bitlen p) / 2 ^ nat (bitlen q - 1)"
    proof -
      have "(2::rat) ^ nat (bitlen q - 1) \<le> of_int q"
        using bq by (metis of_int_le_iff of_int_numeral of_int_power)
      then show ?thesis by (simp add: frac_le)
    qed
    also have "\<dots> = 2 powi (bitlen p) / 2 powi (bitlen q - 1)"
      using pos by (simp add: power_int_def)
    also have "\<dots> = 2 powi (bitlen p - (bitlen q - 1))"
      by (rule power_int_diff [symmetric]) simp
    also have "bitlen p - (bitlen q - 1) = ?e + 1" by simp
    finally have "x < 2 powi (?e + 1)" by (simp add: x)
    then show ?thesis by (simp only: e)
  qed
qed

lemma binary64_error:
  assumes "0 < x"
  shows "\<bar>binary64 x - x\<bar> \<le> x / 2 ^ 53"
proof -
  define u :: rat where "u = 2 powi (exponent x - 52)"
  have u: "0 < u" by (simp add: u_def)
  have b: "binary64 x = of_int (round_ties_even (x / u)) * u"
    using assms by (simp add: binary64_def u_def Let_def)
  have "binary64 x - x = (of_int (round_ties_even (x / u)) - x / u) * u"
    using u by (simp add: b field_simps)
  then have "\<bar>binary64 x - x\<bar> = \<bar>of_int (round_ties_even (x / u)) - x / u\<bar> * u"
    using u by (simp add: abs_mult)
  also have "\<dots> \<le> (1/2) * u"
    using u round_ties_even_error [of "x / u"] by (simp add: mult_right_mono)
  also have "\<dots> = 2 powi (exponent x) / 2 ^ 53"
    by (simp add: u_def power_int_diff)
  also have "\<dots> \<le> x / 2 ^ 53"
    using exponent_le [OF assms] by (simp add: divide_right_mono)
  finally show ?thesis .
qed

lemma binary64_pos:
  assumes "0 < x"
  shows "0 < binary64 x"
proof -
  have "x / 2 ^ 53 < x" using assms by (simp add: field_simps)
  with binary64_error [OF assms] show ?thesis by linarith
qed

lemma close_rate_error:
  fixes b t :: nat
  assumes b: "0 < b" "b \<le> t"
  defines "x \<equiv> binary64 (binary64 (of_nat b / of_nat t) * 100)"
  shows "0 < x" and "\<bar>x * 10 - 1000 * of_nat b / of_nat t\<bar> \<le> 2010 / 2 ^ 53"
proof -
  define r :: rat where "r = of_nat b / of_nat t"
  define r1 where "r1 = binary64 r"
  have r: "0 < r" "r \<le> 1" using b by (simp_all add: r_def)
  have r1: "\<bar>r1 - r\<bar> \<le> r / 2 ^ 53" "0 < r1"
    unfolding r1_def using r(1) by (rule binary64_error, rule binary64_pos)
  have y: "0 < r1 * 100" using r1(2) by simp
  have x: "x = binary64 (r1 * 100)" by (simp add: x_def r1_def r_def)
  show "0 < x" unfolding x using y by (rule binary64_pos)
  have xe: "\<bar>x - r1 * 100\<bar> \<le> r1 * 100 / 2 ^ 53"
    unfolding x using y by (rule binary64_error)
  define eps :: rat where "eps = 1 / 2 ^ 53"
  have eps: "0 < eps" by (simp add: eps_def)
  have "r / 2 ^ 53 \<le> eps" using r(2) by (simp add: eps_def divide_right_mono)
  with r1(1) r(2) have r1b: "\<bar>r1 - r\<bar> \<le> eps" "r1 \<le> 1 + eps" by linarith+
  have "eps \<le> 1 / 100" by (simp add: eps_def)
  with r1b(2) have "r1 * 100 \<le> 101" by linarith
  then have "r1 * 100 / 2 ^ 53 \<le> 101 * eps" by (simp add: eps_def divide_right_mono)
  with xe have "\<bar>x - r1 * 100\<bar> \<le> 101 * eps" by linarith
  with r1b(1) have "\<bar>x * 10 - 1000 * r\<bar> \<le> 2010 * eps" by linarith
  then show "\<bar>x * 10 - 1000 * of_nat b / of_nat t\<bar> \<le> 2010 / 2 ^ 53"
    by (simp add: r_def eps_def)
qed

lemma nearest_tenth:
  fixes b t :: nat and x :: rat
  assumes t: "0 < t" "t < 2 ^ 32"
    and x: "\<bar>x * 10 - 1000 * of_nat b / of_nat t\<bar> \<le> 2010 / 2 ^ 53"
  shows "\<bar>of_int \<lfloor>x * 10 + 1/2\<rfloor> - 1000 * of_nat b / of_nat t\<bar> \<le> (1/2 :: rat)"
proof -
  define n where "n = \<lfloor>x * 10 + 1/2\<rfloor>"
  define d :: rat where "d = of_int n - 1000 * of_nat b / of_nat t"
  define k :: int where "k = n * int t - 1000 * int b"
  have n: "of_int n \<le> x * 10 + 1/2" "x * 10 + 1/2 < of_int n + 1"
    unfolding n_def by linarith+
  have d: "\<bar>d\<bar> \<le> 1/2 + 2010 / 2 ^ 53"
    using n x unfolding d_def by linarith
  have k: "of_int k = d * of_nat t"
    using t(1) by (simp add: k_def d_def field_simps)
  have "of_nat t * (2010 / 2 ^ 53) < (1/2 :: rat)"
  proof -
    have "(of_nat t :: rat) < 2 ^ 32"
      using t(2) by (metis of_nat_less_iff of_nat_numeral of_nat_power)
    then show ?thesis by simp
  qed
  moreover have "\<bar>of_int k :: rat\<bar> \<le> of_nat t * (1/2 + 2010 / 2 ^ 53)"
    using d t(1) by (simp add: k abs_mult mult.commute mult_left_mono)
  ultimately have "\<bar>of_int k :: rat\<bar> < of_nat t / 2 + 1/2"
    by (simp add: algebra_simps)
  then have "(of_int (2 * \<bar>k\<bar>) :: rat) < of_int (int t + 1)" by simp
  then have "2 * \<bar>k\<bar> < int t + 1" by (simp only: of_int_less_iff)
  then have "2 * \<bar>k\<bar> \<le> int t" by simp
  then have "(of_int (2 * \<bar>k\<bar>) :: rat) \<le> of_int (int t)" by (simp only: of_int_le_iff)
  then have "\<bar>d\<bar> * of_nat t \<le> of_nat t / 2"
    by (simp add: k abs_mult)
  then have "\<bar>d\<bar> \<le> 1/2" using t(1) by (simp add: field_simps)
  then show ?thesis by (simp add: d_def n_def)
qed

lemma close_rate_thirty: "close_rate 3 10 = JStr ''30.0''"
  by code_simp

lemma close_rate_nearest:
  fixes b t :: nat
  assumes t: "0 < t" "t < 2 ^ 32" and b: "b \<le> t"
  shows "\<exists>n::nat. close_rate b t = JStr (digits (n div 10) @ ''.'' @ digits (n mod 10)) \<and>
           \<bar>of_nat n / 10 - 100 * of_nat b / of_nat t\<bar> \<le> (1/20 :: rat)"
proof -
  define x where "x = binary64 (binary64 (of_nat b / of_nat t) * 100)"
  define n where "n = nat \<lfloor>x * 10 + 1/2\<rfloor>"
  have x: "0 \<le> x \<and> \<bar>x * 10 - 1000 * of_nat b / of_nat t\<bar> \<le> 2010 / 2 ^ 53"
  proof (cases "b = 0")
    case True
    then show ?thesis by (simp add: x_def binary64_def)
  next
    case False
    with b close_rate_error [of b t] show ?thesis by (simp add: x_def)
  qed
  then have floor: "0 \<le> \<lfloor>x * 10 + 1/2\<rfloor>" by simp
  have "close_rate b t = JStr (digits (n div 10) @ ''.'' @ digits (n mod 10))"
    using t(1) x by (simp add: close_rate_def toFixed1_def x_def [symmetric] n_def Let_def)
  moreover have "\<bar>of_nat n / 10 - 100 * of_nat b / of_nat t\<bar> \<le> (1/20 :: rat)"
  proof -
    have "(of_nat n :: rat) = of_int \<lfloor>x * 10 + 1/2\<rfloor>"
      using floor by (simp add: n_def)
    with nearest_tenth [OF t, of x b] x show ?thesis by linarith
  qed
  ultimately show ?thesis by blast
qed

lemma count_leads_of_client:
  "length (leads_of_client cid w) = length (filter (\<lambda>l. l_client_id l = SText cid) (leads w))"
  "count_status st (leads_of_client cid w) =
     length (filter (\<lambda>l. l_status l = SText st) (filter (\<lambda>l. l_client_id l = SText cid) (leads w)))"
proof -
  show "length (leads_of_client cid w) = length (filter (\<lambda>l. l_client_id l = SText cid) (leads w))"
    by (simp add: leads_of_client_def)
  have "filter (\<lambda>l. l_status l = SText st) (leads_of_client cid w) =
        rev (sort_key l_created_at
          (filter (\<lambda>l. l_status l = SText st) (filter (\<lambda>l. l_client_id l = SText cid) (leads w))))"
    unfolding leads_of_client_def by (simp only: rev_filter [symmetric] filter_sort)
  then show "count_status st (leads_of_client cid w) =
     length (filter (\<lambda>l. l_status l = SText st) (filter (\<lambda>l. l_client_id l = SText cid) (leads w)))"
    by (simp add: count_status_def)
qed

text \<open>
  C8. The dashboard of a client reports, with totalLeads the number of the client's leads
  and bookedLeads the number of those with status "booked": closeRate is the number 0
  when the client has no lead (nothing is divided); it is the string "30.0" for 10 leads
  of which 3 are booked; and for any positive number of leads (below 2^32, the bound of a
  JavaScript array) it is the one-decimal numeral of a tenth that lies within 0.05 of
  booked / total * 100, the double arithmetic of the handler included.
\<close>


theorem dashboard_close_rate:
  assumes client: "find (\<lambda>c. c_dashboard_token c = SText token) (clients w) = Some client"
  defines "own \<equiv> filter (\<lambda>l. l_client_id l = SText (c_id client)) (leads w)"
  defines "nbooked \<equiv> length (filter (\<lambda>l. l_status l = SText ''booked'') own)"
  shows "\<exists>stats weekly.
           dashboard E now token w = \<lparr>status_code = 200, payload = DashboardBody stats weekly\<rparr> \<and>
           totalLeads stats = length own \<and> bookedLeads stats = nbooked \<and>
           (length own = 0 \<longrightarrow> closeRate stats = JNum 0) \<and>
           (length own = 10 \<and> nbooked = 3 \<longrightarrow> closeRate stats = JStr ''30.0'') \<and>
           (0 < length own \<and> length own < 2 ^ 32 \<longrightarrow>
              (\<exists>n::nat. closeRate stats = JStr (digits (n div 10) @ ''.'' @ digits (n mod 10)) \<and>
                 \<bar>of_nat n / 10 - 100 * of_nat nbooked / of_nat (length own)\<bar> \<le> (1/20 :: rat)))"
proof -
  let ?ls = "leads_of_client (c_id client) w"
  let ?stats = "\<lparr>totalLeads = length ?ls, newLeads = count_status ''new'' ?ls,
                 contactedLeads = count_status ''contacted'' ?ls,
                 bookedLeads = count_status ''booked'' ?ls,
                 closeRate = close_rate (count_status ''booked'' ?ls) (length ?ls)\<rparr>"
  have total: "length ?ls = length own" and booked: "count_status ''booked'' ?ls = nbooked"
    by (simp_all add: count_leads_of_client own_def nbooked_def)
  have response: "dashboard E now token w =
      \<lparr>status_code = 200, payload = DashboardBody ?stats (weeklyLeads E now ?ls)\<rparr>"
    by (simp add: dashboard_def client json_def Let_def)
  have le: "nbooked \<le> length own" by (simp add: nbooked_def)
  have zero: "close_rate nbooked (length own) = JNum 0" if "length own = 0"
    using that by (simp add: close_rate_def)
  have thirty: "close_rate nbooked (length own) = JStr ''30.0''"
    if "length own = 10" "nbooked = 3"
    using that by (simp add: close_rate_thirty)
  have nearest: "\<exists>n::nat. close_rate nbooked (length own) =
        JStr (digits (n div 10) @ ''.'' @ digits (n mod 10)) \<and>
        \<bar>of_nat n / 10 - 100 * of_nat nbooked / of_nat (length own)\<bar> \<le> (1/20 :: rat)"
    if "0 < length own" "length own < 2 ^ 32"
    using that le by (rule close_rate_nearest)
  show ?thesis
    apply (rule exI [of _ ?stats], rule exI [of _ "weeklyLeads E now ?ls"])
    using response zero thirty nearest by (simp add: total booked)
qed

lemma ten_leads_counts:
  "find (\<lambda>c. c_dashboard_token c = SText ''demo_token'') (clients ten_leads_store) = Some demo_client"
  "length (filter (\<lambda>l. l_client_id l = SText (c_id demo_client)) (leads ten_leads_store)) = 10"
  "length (filter (\<lambda>l. l_status l = SText ''booked'')
     (filter (\<lambda>l. l_client_id l = SText (c_id demo_client)) (leads ten_leads_store))) = 3"
  by code_simp+


theorem dashboard_close_rate_witness:
  "\<exists>stats weekly.
     dashboard example_env 0 ''demo_token'' ten_leads_store =
       \<lparr>status_code = 200, payload = DashboardBody stats weekly\<rparr> \<and>
     totalLeads stats = 10 \<and> bookedLeads stats = 3 \<and> closeRate stats = JStr ''30.0''"
  using dashboard_close_rate
          [OF ten_leads_counts(1), where now = 0 and E = example_env,
           unfolded ten_leads_counts(2,3)]
  by blast

end
